theory Spec2Isabelle
  imports Complex_Main
begin

section \<open>Python values the model needs\<close>

text \<open>
  Exceptions of the source are values. \<open>ValueError\<close> is what \<open>list.index\<close>, the mixer
  helpers and \<open>__set_volume\<close> raise; \<open>IndexError\<close> is an out-of-range subscript;
  \<open>AttributeError\<close> is a method call on \<open>None\<close>; \<open>OpenError\<close> stands for whatever
  \<open>wave.open\<close> raises on an unreadable file and \<open>DeviceError\<close> for a failing
  \<open>PyAudio.open\<close>.
\<close>

datatype error = ValueError | IndexError | AttributeError | OpenError | DeviceError

text \<open>\<open>xs[i]\<close>: negative subscripts count from the end, anything else out of range raises.\<close>

definition py_getitem :: "'a list \<Rightarrow> int \<Rightarrow> error + 'a" where
  "py_getitem xs i =
     (if 0 \<le> i \<and> i < int (length xs) then Inr (xs ! nat i)
      else if i < 0 \<and> - int (length xs) \<le> i then Inr (xs ! nat (int (length xs) + i))
      else Inl IndexError)"

text \<open>\<open>xs.index(x)\<close>: the first position holding \<open>x\<close>, or \<open>ValueError\<close>.\<close>

fun first_index :: "'a list \<Rightarrow> 'a \<Rightarrow> nat option" where
  "first_index [] x = None"
| "first_index (y # ys) x =
     (if y = x then Some 0
      else (case first_index ys x of None \<Rightarrow> None | Some k \<Rightarrow> Some (Suc k)))"

definition py_index :: "'a list \<Rightarrow> 'a \<Rightarrow> error + int" where
  "py_index xs x = (case first_index xs x of None \<Rightarrow> Inl ValueError | Some k \<Rightarrow> Inr (int k))"

text \<open>
  \<open>random.shuffle(x)\<close> is the standard library's loop
  \<^verbatim>\<open>for i in reversed(range(1, len(x))): j = randbelow(i + 1); x[i], x[j] = x[j], x[i]\<close>.
  The generator is a parameter: \<open>rnd i\<close> is the raw number drawn at step \<open>i\<close>, reduced
  below \<open>i + 1\<close>.
\<close>

primrec shuffle_steps :: "(nat \<Rightarrow> nat) \<Rightarrow> nat \<Rightarrow> 'a list \<Rightarrow> 'a list" where
  "shuffle_steps rnd 0 xs = xs"
| "shuffle_steps rnd (Suc k) xs =
     (let i = Suc k; j = rnd i mod Suc i
      in shuffle_steps rnd k (xs[i := xs ! j, j := xs ! i]))"

definition shuffle :: "(nat \<Rightarrow> nat) \<Rightarrow> 'a list \<Rightarrow> 'a list" where
  "shuffle rnd xs = shuffle_steps rnd (length xs - 1) xs"

section \<open>RadioApp.AudioPlayer\<close>

text \<open>
  The opened \<open>wave.Wave_read\<close>: its frame count and how many frames have been read.
  \<open>readframes(n)\<close> hands out at most the frames that are left; the model keeps the
  number of frames of the returned buffer instead of its bytes.
\<close>

record wave_read =
  nframes :: int
  frames_read :: int

definition readframes :: "wave_read \<Rightarrow> int \<Rightarrow> int \<times> wave_read" where
  "readframes w n =
     (let got = max 0 (min n (nframes w - frames_read w))
      in (got, w\<lparr>frames_read := frames_read w + got\<rparr>))"

text \<open>The \<open>pyaudio.Stream\<close>: all the source asks of it is whether it is active.\<close>

record pa_stream =
  active :: bool

datatype pa_flag = paContinue | paComplete

record AudioPlayer =
  total_frames :: int
  played_frames :: int
  wave_read :: "wave_read option"
  stream :: "pa_stream option"
  is_continuing :: bool
  output_device_index :: "nat option"

text \<open>
  What lies outside the program and is only read by it: \<open>wave_frames path\<close> is the frame
  count of the PCM file at \<open>path\<close> (\<open>None\<close> when \<open>wave.open\<close> raises), \<open>device_ok\<close>
  says whether \<open>PyAudio.open\<close> succeeds.
\<close>

record env =
  wave_frames :: "string \<Rightarrow> nat option"
  device_ok :: bool

definition AudioPlayer_init :: AudioPlayer where
  "AudioPlayer_init =
     \<lparr>total_frames = 0, played_frames = 0, wave_read = None, stream = None,
      is_continuing = False, output_device_index = None\<rparr>"

text \<open>
  \<open>__stream_callback\<close>. The result is the number of frames handed to the driver and the
  flag; with \<open>paComplete\<close> the thread running \<open>__delayed_call_next\<close> has been started and
  the driver lets the stream go inactive.
\<close>

definition stream_callback :: "int \<Rightarrow> AudioPlayer \<Rightarrow> (error + int \<times> pa_flag) \<times> AudioPlayer" where
  "stream_callback frame_count p =
     (case wave_read p of
        None \<Rightarrow> (Inl AttributeError, p)
      | Some w \<Rightarrow>
          (let (data, w') = readframes w frame_count;
               p1 = p\<lparr>wave_read := Some w'\<rparr>;
               p2 = p1\<lparr>played_frames := played_frames p1 + frame_count\<rparr>
           in if played_frames p2 \<ge> total_frames p2
              then (Inr (0, paComplete),
                    p2\<lparr>stream := map_option (\<lambda>st. st\<lparr>active := False\<rparr>) (stream p2)\<rparr>)
              else (Inr (data, paContinue), p2)))"

text \<open>\<open>load_file\<close>: \<open>PyAudio.open\<close> starts the stream it returns.\<close>

definition load_file :: "env \<Rightarrow> string \<Rightarrow> AudioPlayer \<Rightarrow> (error + unit) \<times> AudioPlayer" where
  "load_file e file_path p =
     (case wave_frames e file_path of
        None \<Rightarrow> (Inl OpenError, p)
      | Some n \<Rightarrow>
          (let p1 = p\<lparr>wave_read := Some \<lparr>nframes = int n, frames_read = 0\<rparr>\<rparr>;
               p2 = p1\<lparr>total_frames := int n\<rparr>;
               p3 = p2\<lparr>played_frames := 0\<rparr>
           in if device_ok e
              then (Inr (), p3\<lparr>stream := Some \<lparr>active = True\<rparr>\<rparr>)
              else (Inl DeviceError, p3)))"

definition start_stream :: "AudioPlayer \<Rightarrow> bool \<times> AudioPlayer" where
  "start_stream p =
     (case stream p of
        Some st \<Rightarrow> (True, p\<lparr>stream := Some (st\<lparr>active := True\<rparr>), is_continuing := True\<rparr>)
      | None \<Rightarrow> (False, p))"

definition pause_stream :: "AudioPlayer \<Rightarrow> bool \<times> AudioPlayer" where
  "pause_stream p =
     (case stream p of
        Some st \<Rightarrow> (True, p\<lparr>stream := Some (st\<lparr>active := False\<rparr>), is_continuing := False\<rparr>)
      | None \<Rightarrow> (False, p))"

definition stop_stream :: "AudioPlayer \<Rightarrow> bool \<times> AudioPlayer" where
  "stop_stream p =
     (case stream p of
        Some st \<Rightarrow>
          (True, p\<lparr>stream := None, is_continuing := False, total_frames := 0, played_frames := 0\<rparr>)
      | None \<Rightarrow> (False, p))"

definition has_stream :: "AudioPlayer \<Rightarrow> bool" where
  "has_stream p = (stream p \<noteq> None)"

definition is_active :: "AudioPlayer \<Rightarrow> bool" where
  "is_active p = (case stream p of None \<Rightarrow> False | Some st \<Rightarrow> active st)"

text \<open>
  \<open>progress\<close>: Python's \<open>/\<close> on two ints is the quotient as a float; the model takes the
  exact quotient.
\<close>

definition progress :: "AudioPlayer \<Rightarrow> real option" where
  "progress p =
     (if total_frames p = 0 then None
      else if total_frames p \<le> played_frames p then Some 1
      else Some (real_of_int (played_frames p) / real_of_int (total_frames p)))"

section \<open>RadioApp: playlist and playback actions\<close>

text \<open>
  The fields of \<open>RadioApp\<close> the actions touch. \<open>mixer\<close> is not a field of the class: it
  is the percentage the ALSA mixer holds, \<open>None\<close> when no supported \<open>amixer\<close> control
  answers (or its output has no \<open>[n%]\<close>), and it is threaded with the state because
  \<open>__get_volume\<close> and \<open>__set_volume\<close> read and write it.
\<close>

record RadioApp =
  directory :: string
  files :: "string list"
  selected_index :: int
  top_index :: int
  playlist :: "int list"
  playing_index :: int
  is_random :: bool
  volume :: "int option"
  player :: AudioPlayer
  mixer :: "int option"

definition VOLUME_STEP :: int where
  "VOLUME_STEP = 10"

text \<open>\<open>RadioApp.__init__\<close> for a media directory holding \<open>fs\<close> and a mixer \<open>m\<close>.\<close>

definition RadioApp_init :: "string list \<Rightarrow> int option \<Rightarrow> RadioApp" where
  "RadioApp_init fs m =
     \<lparr>directory = ''media'', files = fs, selected_index = 0, top_index = 0,
      playlist = map int [0 ..< length fs], playing_index = 0, is_random = False,
      volume = m, player = AudioPlayer_init, mixer = m\<rparr>"

text \<open>\<open>os.path.join(directory, name)\<close> for a file name that \<open>os.listdir\<close> returned.\<close>

definition path_join :: "string \<Rightarrow> string \<Rightarrow> string" where
  "path_join d f = d @ ''/'' @ f"

text \<open>The path of the track at \<open>playing_index\<close>: \<open>files[playlist[playing_index]]\<close>.\<close>

definition playing_path :: "RadioApp \<Rightarrow> error + string" where
  "playing_path s =
     (case py_getitem (playlist s) (playing_index s) of
        Inl e \<Rightarrow> Inl e
      | Inr t \<Rightarrow>
          (case py_getitem (files s) t of
             Inl e \<Rightarrow> Inl e
           | Inr f \<Rightarrow> Inr (path_join (directory s) f)))"

text \<open>
  \<open>play_action\<close>, statement by statement: the relocation block (lines 310 to 313), the
  load block (lines 314 to 316), then \<open>start_stream\<close>.
\<close>

definition play_relocate :: "RadioApp \<Rightarrow> (error + unit) \<times> RadioApp" where
  "play_relocate s =
     (case py_getitem (playlist s) (playing_index s) of
        Inl e \<Rightarrow> (Inl e, s)
      | Inr t \<Rightarrow>
          if selected_index s \<noteq> t
          then (case py_index (playlist s) (selected_index s) of
                  Inl e \<Rightarrow> (Inl e, s)
                | Inr j \<Rightarrow>
                    (let s1 = s\<lparr>playing_index := j\<rparr>
                     in if has_stream (player s1)
                        then (Inr (), s1\<lparr>player := snd (stop_stream (player s1))\<rparr>)
                        else (Inr (), s1)))
          else (Inr (), s))"

definition play_load :: "env \<Rightarrow> RadioApp \<Rightarrow> (error + unit) \<times> RadioApp" where
  "play_load e s =
     (if \<not> has_stream (player s)
      then (case playing_path s of
              Inl err \<Rightarrow> (Inl err, s)
            | Inr path \<Rightarrow>
                (case load_file e path (player s) of
                   (Inl err, p) \<Rightarrow> (Inl err, s\<lparr>player := p\<rparr>)
                 | (Inr u, p) \<Rightarrow> (Inr (), s\<lparr>player := p\<rparr>)))
      else (Inr (), s))"

definition play_action :: "env \<Rightarrow> RadioApp \<Rightarrow> (error + bool) \<times> RadioApp" where
  "play_action e s =
     (if length (playlist s) = 0 then (Inr False, s)
      else (case play_relocate s of
              (Inl err, s1) \<Rightarrow> (Inl err, s1)
            | (Inr u, s1) \<Rightarrow>
                (case play_load e s1 of
                   (Inl err, s2) \<Rightarrow> (Inl err, s2)
                 | (Inr v, s2) \<Rightarrow>
                     (Inr True, s2\<lparr>player := snd (start_stream (player s2))\<rparr>))))"

definition pause_action :: "RadioApp \<Rightarrow> (error + bool) \<times> RadioApp" where
  "pause_action s = (case pause_stream (player s) of (b, p) \<Rightarrow> (Inr b, s\<lparr>player := p\<rparr>))"

definition stop_action :: "RadioApp \<Rightarrow> (error + unit) \<times> RadioApp" where
  "stop_action s = (Inr (), s\<lparr>player := snd (stop_stream (player s))\<rparr>)"

text \<open>
  The common tail of \<open>prev_action\<close> and \<open>skip_action\<close> once \<open>playing_index\<close> is moved:
  \<open>selected_index\<close> follows, and an active stream is stopped and the new track played
  (the boolean of \<open>play_action\<close> is dropped, its exception is not).
\<close>

definition follow_and_restart :: "env \<Rightarrow> RadioApp \<Rightarrow> (error + unit) \<times> RadioApp" where
  "follow_and_restart e s =
     (case py_getitem (playlist s) (playing_index s) of
        Inl err \<Rightarrow> (Inl err, s)
      | Inr t \<Rightarrow>
          (let s1 = s\<lparr>selected_index := t\<rparr>
           in if is_active (player s1)
              then (case play_action e (snd (stop_action s1)) of
                      (Inl err, s2) \<Rightarrow> (Inl err, s2)
                    | (Inr b, s2) \<Rightarrow> (Inr (), s2))
              else (Inr (), s1)))"

definition prev_action :: "env \<Rightarrow> RadioApp \<Rightarrow> (error + unit) \<times> RadioApp" where
  "prev_action e s =
     (if length (files s) = 0 then (Inr (), s)
      else follow_and_restart e
             (s\<lparr>playing_index := (playing_index s - 1) mod int (length (files s))\<rparr>))"

definition skip_action :: "env \<Rightarrow> RadioApp \<Rightarrow> (error + unit) \<times> RadioApp" where
  "skip_action e s =
     (if length (files s) = 0 then (Inr (), s)
      else follow_and_restart e
             (s\<lparr>playing_index := (playing_index s + 1) mod int (length (files s))\<rparr>))"

definition random_action :: "(nat \<Rightarrow> nat) \<Rightarrow> RadioApp \<Rightarrow> (error + bool) \<times> RadioApp" where
  "random_action rnd s =
     (let s1 = s\<lparr>is_random := True\<rparr>;
          s2 = s1\<lparr>playlist := shuffle rnd (playlist s1)\<rparr>
      in case py_index (playlist s2) (selected_index s2) of
           Inl err \<Rightarrow> (Inl err, s2)
         | Inr j \<Rightarrow> (Inr True, s2\<lparr>playing_index := j\<rparr>))"

definition order_action :: "RadioApp \<Rightarrow> (error + bool) \<times> RadioApp" where
  "order_action s =
     (let s1 = s\<lparr>is_random := False\<rparr>;
          s2 = s1\<lparr>playlist := map int [0 ..< length (files s1)]\<rparr>
      in (Inr True, s2\<lparr>playing_index := selected_index s2\<rparr>))"

text \<open>\<open>__call_next\<close>, the completion handler the player calls back.\<close>

definition call_next :: "env \<Rightarrow> RadioApp \<Rightarrow> (error + unit) \<times> RadioApp" where
  "call_next e s =
     (if is_continuing (player s) \<and> length (files s) > 0
      then (let s0 = s\<lparr>playing_index := (playing_index s + 1) mod int (length (files s))\<rparr>
            in case py_getitem (playlist s0) (playing_index s0) of
                 Inl err \<Rightarrow> (Inl err, s0)
               | Inr t \<Rightarrow>
                   (let s1 = s0\<lparr>selected_index := t\<rparr>;
                        s2 = s1\<lparr>player := snd (stop_stream (player s1))\<rparr>
                    in case playing_path s2 of
                         Inl err \<Rightarrow> (Inl err, s2)
                       | Inr path \<Rightarrow>
                           (case load_file e path (player s2) of
                              (Inl err, p) \<Rightarrow> (Inl err, s2\<lparr>player := p\<rparr>)
                            | (Inr u, p) \<Rightarrow> (Inr (), s2\<lparr>player := snd (start_stream p)\<rparr>))))
      else (Inr (), s))"

definition on_key_up :: "RadioApp \<Rightarrow> RadioApp" where
  "on_key_up s = s\<lparr>selected_index := max (selected_index s - 1) 0\<rparr>"

definition on_key_down :: "RadioApp \<Rightarrow> RadioApp" where
  "on_key_down s = s\<lparr>selected_index := min (selected_index s + 1) (int (length (files s)) - 1)\<rparr>"

section \<open>RadioApp: volume\<close>

definition get_volume :: "RadioApp \<Rightarrow> error + int" where
  "get_volume s = (case mixer s of None \<Rightarrow> Inl ValueError | Some v \<Rightarrow> Inr v)"

definition set_volume :: "int \<Rightarrow> RadioApp \<Rightarrow> (error + unit) \<times> RadioApp" where
  "set_volume v s =
     (if \<not> (0 \<le> v \<and> v \<le> 100) then (Inl ValueError, s)
      else (case mixer s of
              None \<Rightarrow> (Inl ValueError, s)
            | Some old \<Rightarrow> (Inr (), s\<lparr>mixer := Some v\<rparr>)))"

text \<open>\<open>self.__volume = self.__get_volume()\<close>, the last statement of both \<open>try\<close> blocks.\<close>

definition refresh_volume :: "RadioApp \<Rightarrow> (error + unit) \<times> RadioApp" where
  "refresh_volume s =
     (case get_volume s of Inl err \<Rightarrow> (Inl err, s) | Inr v \<Rightarrow> (Inr (), s\<lparr>volume := Some v\<rparr>))"

text \<open>\<open>except ValueError: pass\<close>: that exception ends the action quietly, any other leaves it.\<close>

definition except_ValueError_pass :: "(error + unit) \<times> RadioApp \<Rightarrow> (error + unit) \<times> RadioApp" where
  "except_ValueError_pass r =
     (case r of
        (Inl err, s) \<Rightarrow> (if err = ValueError then (Inr (), s) else (Inl err, s))
      | (Inr u, s) \<Rightarrow> (Inr (), s))"

definition decrease_volume_try :: "RadioApp \<Rightarrow> (error + unit) \<times> RadioApp" where
  "decrease_volume_try s =
     (case get_volume s of
        Inl err \<Rightarrow> (Inl err, s)
      | Inr current_value \<Rightarrow>
          (case (if current_value mod VOLUME_STEP = 0
                 then set_volume (max (current_value - VOLUME_STEP) 0) s
                 else (let aligned_value = current_value div VOLUME_STEP * VOLUME_STEP
                       in set_volume (max (aligned_value - VOLUME_STEP) 0) s)) of
             (Inl err, s1) \<Rightarrow> (Inl err, s1)
           | (Inr u, s1) \<Rightarrow> refresh_volume s1))"

definition decrease_volume_action :: "RadioApp \<Rightarrow> (error + unit) \<times> RadioApp" where
  "decrease_volume_action s = except_ValueError_pass (decrease_volume_try s)"

definition increase_volume_try :: "RadioApp \<Rightarrow> (error + unit) \<times> RadioApp" where
  "increase_volume_try s =
     (case get_volume s of
        Inl err \<Rightarrow> (Inl err, s)
      | Inr current_value \<Rightarrow>
          (case (if current_value mod VOLUME_STEP = 0
                 then set_volume (min (current_value + VOLUME_STEP) 100) s
                 else (let aligned_value =
                             (current_value + VOLUME_STEP) div VOLUME_STEP * VOLUME_STEP
                       in set_volume (min (aligned_value + VOLUME_STEP) 100) s)) of
             (Inl err, s1) \<Rightarrow> (Inl err, s1)
           | (Inr u, s1) \<Rightarrow> refresh_volume s1))"

definition increase_volume_action :: "RadioApp \<Rightarrow> (error + unit) \<times> RadioApp" where
  "increase_volume_action s = except_ValueError_pass (increase_volume_try s)"

section \<open>Controls and control groups\<close>

text \<open>
  The two \<open>SelectionState\<close> singletons that \<open>RadioApp.__init__\<close> creates: \<open>NONE\<close> with
  \<open>(is_focused, is_selected) = (False, False)\<close> and \<open>FOCUSED\<close> with \<open>(True, False)\<close>.
\<close>

datatype SelectionState = NONE | FOCUSED

fun state_is_focused :: "SelectionState \<Rightarrow> bool" where
  "state_is_focused NONE = False"
| "state_is_focused FOCUSED = True"

fun state_is_selected :: "SelectionState \<Rightarrow> bool" where
  "state_is_selected NONE = False"
| "state_is_selected FOCUSED = False"

text \<open>
  Controls live in a store, a list addressed by position, because a \<open>ControlGroup\<close>
  holds references to its members and compares them by identity. A control's
  \<open>control_group\<close> is \<open>None\<close> or the addresses registered with its group (\<open>listen\<close> runs
  in the constructors only). The callbacks act on a state \<open>'w\<close> of their own and answer
  with a value or an exception.
\<close>

datatype 'w Control =
  InstantControl
    (selection_state: SelectionState)
    (control_group: "nat list option")
    (instant_callback: "'w \<Rightarrow> (error + unit) \<times> 'w")
| SwitchControl
    (selection_state: SelectionState)
    (control_group: "nat list option")
    (select_callback: "'w \<Rightarrow> (error + bool) \<times> 'w")
    (switched_select_callback: "'w \<Rightarrow> (error + bool) \<times> 'w")
    (is_switched: bool)
where
  "is_switched (InstantControl st g f) = False"

fun on_focus :: "'w Control \<Rightarrow> 'w Control" where
  "on_focus (InstantControl st g f) = InstantControl FOCUSED g f"
| "on_focus (SwitchControl st g f h sw) = SwitchControl FOCUSED g f h sw"

fun on_blur :: "'w Control \<Rightarrow> 'w Control" where
  "on_blur (InstantControl st g f) = InstantControl NONE g f"
| "on_blur (SwitchControl st g f h sw) = SwitchControl NONE g f h sw"

fun on_deselect :: "'w Control \<Rightarrow> 'w Control" where
  "on_deselect (InstantControl st g f) = InstantControl st g f"
| "on_deselect (SwitchControl st g f h sw) = SwitchControl st g f h False"

text \<open>\<open>Control.reset\<close>, overridden by \<open>SwitchControl.reset\<close>.\<close>

fun reset :: "'w Control \<Rightarrow> 'w Control" where
  "reset (InstantControl st g f) = InstantControl NONE g f"
| "reset (SwitchControl st g f h sw) = on_deselect (on_blur (SwitchControl st g f h sw))"

text \<open>\<open>ControlGroup.clear_selection\<close>: every member but the one at \<open>keep\<close> is reset.\<close>

fun clear_selection :: "nat list \<Rightarrow> nat \<Rightarrow> 'w Control list \<Rightarrow> 'w Control list" where
  "clear_selection [] keep cs = cs"
| "clear_selection (a # as) keep cs =
     clear_selection as keep (if a \<noteq> keep \<and> a < length cs then cs[a := reset (cs ! a)] else cs)"

definition handle_control_group :: "nat \<Rightarrow> 'w Control list \<Rightarrow> 'w Control list" where
  "handle_control_group i cs =
     (case control_group (cs ! i) of
        Some members \<Rightarrow>
          if \<not> state_is_selected (selection_state (cs ! i)) then clear_selection members i cs
          else cs
      | None \<Rightarrow> cs)"

text \<open>
  \<open>on_select\<close> of the control at address \<open>i\<close> (\<open>on_key_a\<close> subscripts the control list,
  so an address outside it is an \<open>IndexError\<close>).
\<close>

definition on_select ::
  "nat \<Rightarrow> 'w Control list \<Rightarrow> 'w \<Rightarrow> (error + unit) \<times> 'w Control list \<times> 'w" where
  "on_select i cs w =
     (if length cs \<le> i then (Inl IndexError, cs, w)
      else
        (let cs1 = handle_control_group i cs
         in case cs1 ! i of
              InstantControl st g f \<Rightarrow> (case f w of (r, w') \<Rightarrow> (r, cs1, w'))
            | SwitchControl st g f h sw \<Rightarrow>
                if sw
                then (case f w of
                        (Inl err, w') \<Rightarrow> (Inl err, cs1, w')
                      | (Inr b, w') \<Rightarrow>
                          if b then (Inr (), cs1[i := SwitchControl st g f h (\<not> sw)], w')
                          else (Inr (), cs1, w'))
                else (case h w of
                        (Inl err, w') \<Rightarrow> (Inl err, cs1, w')
                      | (Inr b, w') \<Rightarrow>
                          if b then (Inr (), cs1[i := SwitchControl st g f h (\<not> sw)], w')
                          else (Inr (), cs1, w'))))"

section \<open>Volume stepping\<close>

lemmas volume_defs =
  increase_volume_action_def increase_volume_try_def decrease_volume_action_def
  decrease_volume_try_def get_volume_def set_volume_def refresh_volume_def
  except_ValueError_pass_def VOLUME_STEP_def

lemma increase_volume_result:
  assumes "mixer s = Some v" and "0 \<le> v" and "v \<le> 100"
  shows "increase_volume_action s =
           (Inr (), s\<lparr>mixer := Some (if v mod 10 = 0 then min (v + 10) 100
                                       else min ((v + 10) div 10 * 10 + 10) 100),
                       volume := Some (if v mod 10 = 0 then min (v + 10) 100
                                       else min ((v + 10) div 10 * 10 + 10) 100)\<rparr>)"
  using assms by (simp add: volume_defs Let_def)

lemma decrease_volume_result:
  assumes "mixer s = Some v" and "0 \<le> v" and "v \<le> 100"
  shows "decrease_volume_action s =
           (Inr (), s\<lparr>mixer := Some (if v mod 10 = 0 then max (v - 10) 0
                                       else max (v div 10 * 10 - 10) 0),
                       volume := Some (if v mod 10 = 0 then max (v - 10) 0
                                       else max (v div 10 * 10 - 10) 0)\<rparr>)"
  using assms by (simp add: volume_defs Let_def)

text \<open>
  Claim C1, as the code has it. With the mixer at \<open>v\<close> in \<open>0..100\<close>: on a multiple of 10
  each action moves one step of 10 in its direction, clamped to \<open>[0, 100]\<close>; on an
  unaligned \<open>v\<close> the decrease action sets \<open>max (floor(v/10)*10 - 10) 0\<close>, and the
  increase action sets \<open>min (floor(v/10)*10 + 20) 100\<close>: it aligns upwards
  (\<open>(v + 10) // 10 * 10\<close>) and then adds a further step. The displayed volume is
  refreshed from the mixer.
\<close>

theorem volume_step:
  assumes "mixer s = Some v" and "0 \<le> v" and "v \<le> 100"
  shows "mixer (snd (increase_volume_action s)) =
           Some (if v mod 10 = 0 then min (v + 10) 100 else min (v div 10 * 10 + 20) 100)
       \<and> mixer (snd (decrease_volume_action s)) =
           Some (if v mod 10 = 0 then max (v - 10) 0 else max (v div 10 * 10 - 10) 0)
       \<and> volume (snd (increase_volume_action s)) = mixer (snd (increase_volume_action s))
       \<and> volume (snd (decrease_volume_action s)) = mixer (snd (decrease_volume_action s))"
  by (simp add: increase_volume_result [OF assms] decrease_volume_result [OF assms] add.commute)

theorem volume_step_witness:
  "mixer (snd (increase_volume_action (RadioApp_init [] (Some 95)))) = Some 100
 \<and> mixer (snd (decrease_volume_action (RadioApp_init [] (Some 95)))) = Some 80
 \<and> mixer (snd (increase_volume_action (RadioApp_init [] (Some 40)))) = Some 50
 \<and> mixer (snd (decrease_volume_action (RadioApp_init [] (Some 40)))) = Some 30"
proof -
  have m95: "mixer (RadioApp_init [] (Some 95)) = Some 95"
    by (simp add: RadioApp_init_def)
  have m40: "mixer (RadioApp_init [] (Some 40)) = Some 40"
    by (simp add: RadioApp_init_def)
  show ?thesis
    using volume_step [OF m95] volume_step [OF m40] by simp
qed

text \<open>
  The increase action at the unaligned value 15: the code sets 30, where rounding down and
  one step up (\<open>min (floor(15/10)*10 + 10) 100\<close>) would be 20.
\<close>

theorem volume_increase_unaligned_counterexample:
  "mixer (snd (increase_volume_action (RadioApp_init [] (Some 15)))) = Some 30
 \<and> mixer (snd (increase_volume_action (RadioApp_init [] (Some 15))))
     \<noteq> Some (min (15 div 10 * 10 + 10) 100)"
  by (simp add: volume_defs RadioApp_init_def)

section \<open>Empty playlist\<close>

text \<open>
  Claim C2, the code evaluated on an empty playlist. \<open>play_action\<close> does what the claim
  says: it returns \<open>False\<close>, raises nothing and leaves the whole state as it was.
  \<open>random_action\<close> does not: it has no guard for the empty list, so after \<open>is_random\<close>
  is set and the empty list shuffled, \<open>[].index(selected_index)\<close> raises \<open>ValueError\<close>;
  no boolean is returned and the state is no longer the one before the call.
\<close>

theorem empty_playlist_actions:
  assumes "playlist s = []"
  shows "play_action e s = (Inr False, s)
       \<and> random_action rnd s = (Inl ValueError, s\<lparr>is_random := True\<rparr>)"
proof -
  have play: "play_action e s = (Inr False, s)"
    using assms by (simp add: play_action_def)
  have same: "s\<lparr>is_random := True, playlist := []\<rparr> = s\<lparr>is_random := True\<rparr>"
    using assms by (cases s) simp
  have "random_action rnd s = (Inl ValueError, s\<lparr>is_random := True, playlist := []\<rparr>)"
    using assms by (simp add: random_action_def shuffle_def py_index_def Let_def)
  then show ?thesis
    using play same by simp
qed

theorem empty_playlist_actions_witness:
  "play_action \<lparr>wave_frames = (\<lambda>f. None), device_ok = True\<rparr> (RadioApp_init [] None)
     = (Inr False, RadioApp_init [] None)
 \<and> random_action (\<lambda>i. 0) (RadioApp_init [] None)
     = (Inl ValueError, (RadioApp_init [] None)\<lparr>is_random := True\<rparr>)
 \<and> (RadioApp_init [] None)\<lparr>is_random := True\<rparr> \<noteq> RadioApp_init [] None"
proof -
  have empty: "playlist (RadioApp_init [] None) = []"
    by (simp add: RadioApp_init_def)
  have changed: "(RadioApp_init [] None)\<lparr>is_random := True\<rparr> \<noteq> RadioApp_init [] None"
    by (simp add: RadioApp_init_def)
  show ?thesis
    using empty_playlist_actions
      [OF empty, of "\<lparr>wave_frames = (\<lambda>f. None), device_ok = True\<rparr>" "\<lambda>i. 0"] changed
    by simp
qed

section \<open>Frame counters of the player\<close>

lemma load_file_cases:
  "(wave_frames e path = None \<and> load_file e path p = (Inl OpenError, p))
 \<or> (\<exists>n. wave_frames e path = Some n \<and> device_ok e \<and> fst (load_file e path p) = Inr ()
        \<and> played_frames (snd (load_file e path p)) = 0
        \<and> total_frames (snd (load_file e path p)) = int n
        \<and> stream (snd (load_file e path p)) = Some \<lparr>active = True\<rparr>
        \<and> is_continuing (snd (load_file e path p)) = is_continuing p)
 \<or> (\<exists>n. wave_frames e path = Some n \<and> \<not> device_ok e \<and> fst (load_file e path p) = Inl DeviceError
        \<and> played_frames (snd (load_file e path p)) = 0
        \<and> total_frames (snd (load_file e path p)) = int n
        \<and> stream (snd (load_file e path p)) = stream p
        \<and> is_continuing (snd (load_file e path p)) = is_continuing p)"
  by (cases "wave_frames e path") (simp_all add: load_file_def Let_def)

lemma stream_callback_counters:
  "wave_read p = Some w \<Longrightarrow>
     played_frames (snd (stream_callback k p)) = played_frames p + k
   \<and> total_frames (snd (stream_callback k p)) = total_frames p"
  by (simp add: stream_callback_def readframes_def Let_def)

lemma stream_callback_no_wave:
  "wave_read p = None \<Longrightarrow> stream_callback k p = (Inl AttributeError, p)"
  by (simp add: stream_callback_def)

lemma stop_stream_counters:
  "stream p = Some st \<Longrightarrow>
     played_frames (snd (stop_stream p)) = 0 \<and> total_frames (snd (stop_stream p)) = 0"
  by (simp add: stop_stream_def)

lemma start_stream_counters:
  "played_frames (snd (start_stream p)) = played_frames p
 \<and> total_frames (snd (start_stream p)) = total_frames p"
  by (simp add: start_stream_def split: option.splits)

lemma pause_stream_counters:
  "played_frames (snd (pause_stream p)) = played_frames p
 \<and> total_frames (snd (pause_stream p)) = total_frames p"
  by (simp add: pause_stream_def split: option.splits)

text \<open>
  Claim C3, as the code has it. \<open>0 \<le> played_frames\<close> is preserved by every operation of
  the player (the callback being asked for \<open>frame_count \<ge> 0\<close> frames): a successful load
  sets \<open>played_frames\<close> to 0, stop on a loaded player zeroes both counters, and the
  callback adds the number of frames requested, \<open>frame_count\<close>, whatever was read.
  \<open>played_frames \<le> total_frames\<close> is preserved by load, start, pause and stop; of the
  callback nothing of the kind is said.
\<close>

theorem played_frames_invariant:
  assumes "0 \<le> played_frames p" and "0 \<le> frame_count"
  shows "0 \<le> played_frames (snd (load_file e path p))
       \<and> 0 \<le> played_frames (snd (start_stream p))
       \<and> 0 \<le> played_frames (snd (pause_stream p))
       \<and> 0 \<le> played_frames (snd (stop_stream p))
       \<and> 0 \<le> played_frames (snd (stream_callback frame_count p))
       \<and> (fst (load_file e path p) = Inr () \<longrightarrow> played_frames (snd (load_file e path p)) = 0)
       \<and> (has_stream p \<longrightarrow>
            played_frames (snd (stop_stream p)) = 0 \<and> total_frames (snd (stop_stream p)) = 0)
       \<and> (wave_read p \<noteq> None \<longrightarrow>
            played_frames (snd (stream_callback frame_count p)) = played_frames p + frame_count)
       \<and> (played_frames p \<le> total_frames p \<longrightarrow>
            played_frames (snd (load_file e path p)) \<le> total_frames (snd (load_file e path p))
          \<and> played_frames (snd (start_stream p)) \<le> total_frames (snd (start_stream p))
          \<and> played_frames (snd (pause_stream p)) \<le> total_frames (snd (pause_stream p))
          \<and> played_frames (snd (stop_stream p)) \<le> total_frames (snd (stop_stream p)))"
proof -
  have load: "0 \<le> played_frames (snd (load_file e path p))"
    using assms(1) load_file_cases [of e path p] by auto
  have load_ok: "fst (load_file e path p) = Inr () \<longrightarrow> played_frames (snd (load_file e path p)) = 0"
    using load_file_cases [of e path p] by auto
  have load_le: "played_frames p \<le> total_frames p \<longrightarrow>
        played_frames (snd (load_file e path p)) \<le> total_frames (snd (load_file e path p))"
    using load_file_cases [of e path p] by auto
  have stop: "0 \<le> played_frames (snd (stop_stream p))"
    using assms(1) by (cases "stream p") (simp_all add: stop_stream_def)
  have stop_zero: "has_stream p \<longrightarrow>
        played_frames (snd (stop_stream p)) = 0 \<and> total_frames (snd (stop_stream p)) = 0"
    using stop_stream_counters [of p] by (auto simp: has_stream_def)
  have stop_le: "played_frames p \<le> total_frames p \<longrightarrow>
        played_frames (snd (stop_stream p)) \<le> total_frames (snd (stop_stream p))"
    by (cases "stream p") (simp_all add: stop_stream_def)
  have cb: "0 \<le> played_frames (snd (stream_callback frame_count p))"
    using assms stream_callback_counters [of p _ frame_count]
      stream_callback_no_wave [of p frame_count]
    by (cases "wave_read p") auto
  have cb_eq: "wave_read p \<noteq> None \<longrightarrow>
        played_frames (snd (stream_callback frame_count p)) = played_frames p + frame_count"
    using stream_callback_counters [of p _ frame_count] by auto
  show ?thesis
    using assms(1) load load_ok load_le stop stop_zero stop_le cb cb_eq
    by (simp add: start_stream_counters pause_stream_counters)
qed

theorem played_frames_invariant_witness:
  "played_frames (snd (stream_callback 30
      \<lparr>total_frames = 100, played_frames = 40,
       wave_read = Some \<lparr>nframes = 100, frames_read = 40\<rparr>,
       stream = Some \<lparr>active = True\<rparr>, is_continuing = True,
       output_device_index = None\<rparr>)) = 70
 \<and> played_frames (snd (stop_stream
      \<lparr>total_frames = 100, played_frames = 40,
       wave_read = Some \<lparr>nframes = 100, frames_read = 40\<rparr>,
       stream = Some \<lparr>active = True\<rparr>, is_continuing = True,
       output_device_index = None\<rparr>)) = 0
 \<and> played_frames (snd (load_file \<lparr>wave_frames = (\<lambda>f. Some 100), device_ok = True\<rparr> ''media/a.wav''
      \<lparr>total_frames = 100, played_frames = 40,
       wave_read = Some \<lparr>nframes = 100, frames_read = 40\<rparr>,
       stream = Some \<lparr>active = True\<rparr>, is_continuing = True,
       output_device_index = None\<rparr>)) = 0"
  using played_frames_invariant
    [of "\<lparr>total_frames = 100, played_frames = 40,
       wave_read = Some \<lparr>nframes = 100, frames_read = 40\<rparr>,
       stream = Some \<lparr>active = True\<rparr>, is_continuing = True,
       output_device_index = None\<rparr>" 30
       "\<lparr>wave_frames = (\<lambda>f. Some 100), device_ok = True\<rparr>" "''media/a.wav''"]
  by (simp add: has_stream_def load_file_def)

text \<open>
  A freshly loaded track of 100 frames and a callback asking for 1024: the file yields
  its 100 frames, \<open>played_frames\<close> becomes 1024 and \<open>total_frames\<close> stays 100.
\<close>

theorem played_frames_overshoot_counterexample:
  "played_frames (snd (stream_callback 1024
      (snd (load_file \<lparr>wave_frames = (\<lambda>f. Some 100), device_ok = True\<rparr> ''media/a.wav''
         AudioPlayer_init)))) = 1024
 \<and> total_frames (snd (stream_callback 1024
      (snd (load_file \<lparr>wave_frames = (\<lambda>f. Some 100), device_ok = True\<rparr> ''media/a.wav''
         AudioPlayer_init)))) = 100
 \<and> map_option frames_read (wave_read (snd (stream_callback 1024
      (snd (load_file \<lparr>wave_frames = (\<lambda>f. Some 100), device_ok = True\<rparr> ''media/a.wav''
         AudioPlayer_init))))) = Some 100"
  by (simp add: stream_callback_def load_file_def AudioPlayer_init_def readframes_def Let_def)

section \<open>The completion handler\<close>

lemmas play_defs =
  play_action_def play_relocate_def play_load_def playing_path_def py_getitem_def py_index_def
  path_join_def load_file_def start_stream_def stop_stream_def has_stream_def
  RadioApp_init_def AudioPlayer_init_def Let_def

text \<open>
  Claim C4. When \<open>is_continuing\<close> is false, or the track list is empty, \<open>__call_next\<close>
  returns with the whole state as it was: playing position, selected track, play order
  and the player's stream and counters.
\<close>

theorem call_next_noop:
  assumes "\<not> is_continuing (player s) \<or> files s = []"
  shows "call_next e s = (Inr (), s)"
  using assms by (auto simp: call_next_def)

theorem call_next_noop_witness:
  "call_next \<lparr>wave_frames = (\<lambda>f. Some 100), device_ok = True\<rparr>
     (snd (pause_action (snd (play_action \<lparr>wave_frames = (\<lambda>f. Some 100), device_ok = True\<rparr>
        (RadioApp_init [''a.wav'', ''b.wav''] None)))))
   = (Inr (),
      snd (pause_action (snd (play_action \<lparr>wave_frames = (\<lambda>f. Some 100), device_ok = True\<rparr>
        (RadioApp_init [''a.wav'', ''b.wav''] None)))))"
proof -
  have paused: "\<not> is_continuing (player (snd (pause_action (snd (play_action
        \<lparr>wave_frames = (\<lambda>f. Some 100), device_ok = True\<rparr>
        (RadioApp_init [''a.wav'', ''b.wav''] None))))))"
    by (simp add: pause_action_def pause_stream_def play_defs)
  show ?thesis
    using call_next_noop [of "snd (pause_action (snd (play_action
        \<lparr>wave_frames = (\<lambda>f. Some 100), device_ok = True\<rparr>
        (RadioApp_init [''a.wav'', ''b.wav''] None))))"
        "\<lparr>wave_frames = (\<lambda>f. Some 100), device_ok = True\<rparr>"] paused
    by simp
qed

section \<open>Shuffle on, shuffle off\<close>

text \<open>
  Claim C5. After \<open>random_action\<close> and then \<open>order_action\<close> the play order is the
  identity \<open>[0 .. N-1]\<close> over the \<open>N\<close> files and \<open>playing_index\<close> equals
  \<open>selected_index\<close> (which neither action moved); this holds for every state and every
  run of the random generator, also when \<open>random_action\<close> ended in an exception.
\<close>

theorem shuffle_on_then_off:
  "playlist (snd (order_action (snd (random_action rnd s)))) = map int [0 ..< length (files s)]
 \<and> playing_index (snd (order_action (snd (random_action rnd s))))
     = selected_index (snd (order_action (snd (random_action rnd s))))
 \<and> selected_index (snd (order_action (snd (random_action rnd s)))) = selected_index s
 \<and> files (snd (order_action (snd (random_action rnd s)))) = files s
 \<and> \<not> is_random (snd (order_action (snd (random_action rnd s))))
 \<and> fst (order_action (snd (random_action rnd s))) = Inr True"
  by (simp add: order_action_def random_action_def Let_def split: sum.splits)

section \<open>Previous and next\<close>

lemma stop_action_frame:
  "files (snd (stop_action s)) = files s
 \<and> playlist (snd (stop_action s)) = playlist s
 \<and> playing_index (snd (stop_action s)) = playing_index s
 \<and> selected_index (snd (stop_action s)) = selected_index s"
  by (simp add: stop_action_def)

lemma play_load_frame:
  "files (snd (play_load e s)) = files s
 \<and> playlist (snd (play_load e s)) = playlist s
 \<and> playing_index (snd (play_load e s)) = playing_index s
 \<and> selected_index (snd (play_load e s)) = selected_index s"
  by (simp add: play_load_def split: sum.splits prod.splits)

lemma play_relocate_frame:
  "files (snd (play_relocate s)) = files s
 \<and> playlist (snd (play_relocate s)) = playlist s
 \<and> selected_index (snd (play_relocate s)) = selected_index s"
  by (simp add: play_relocate_def Let_def split: sum.splits)

text \<open>No relocation when the selected track is the one at the playing position.\<close>

lemma play_relocate_same:
  "py_getitem (playlist s) (playing_index s) = Inr (selected_index s) \<Longrightarrow>
     play_relocate s = (Inr (), s)"
  by (simp add: play_relocate_def)

lemma play_action_files: "files (snd (play_action e s)) = files s"
  using play_relocate_frame [of s] play_load_frame [of e "snd (play_relocate s)"]
  by (auto simp: play_action_def split: sum.splits prod.splits)

lemma play_action_same_index:
  assumes "py_getitem (playlist s) (playing_index s) = Inr (selected_index s)"
  shows "playing_index (snd (play_action e s)) = playing_index s"
  using play_load_frame [of e s]
  by (auto simp: play_action_def play_relocate_same [OF assms] split: sum.splits prod.splits)

lemma follow_and_restart_frame:
  "playing_index (snd (follow_and_restart e s)) = playing_index s
 \<and> files (snd (follow_and_restart e s)) = files s"
proof (cases "py_getitem (playlist s) (playing_index s)")
  case (Inl err)
  then show ?thesis by (simp add: follow_and_restart_def)
next
  case (Inr t)
  let ?s1 = "s\<lparr>selected_index := t\<rparr>"
  let ?s2 = "snd (stop_action ?s1)"
  have same: "py_getitem (playlist ?s2) (playing_index ?s2) = Inr (selected_index ?s2)"
    using Inr by (simp add: stop_action_def)
  obtain r s' where pa: "play_action e ?s2 = (r, s')"
    by (cases "play_action e ?s2")
  have "playing_index (snd (play_action e ?s2)) = playing_index s"
    using play_action_same_index [OF same, of e] by (simp add: stop_action_def)
  then have idx: "playing_index s' = playing_index s"
    by (simp add: pa)
  have "files (snd (play_action e ?s2)) = files s"
    by (simp add: play_action_files stop_action_def)
  then have fls: "files s' = files s"
    by (simp add: pa)
  show ?thesis
    using Inr pa idx fls by (cases r) (simp_all add: follow_and_restart_def Let_def)
qed

lemma prev_action_index:
  "playing_index (snd (prev_action e s)) =
     (if files s = [] then playing_index s
      else (playing_index s - 1) mod int (length (files s)))
 \<and> files (snd (prev_action e s)) = files s"
  by (simp add: prev_action_def follow_and_restart_frame)

lemma skip_action_index:
  "playing_index (snd (skip_action e s)) =
     (if files s = [] then playing_index s
      else (playing_index s + 1) mod int (length (files s)))
 \<and> files (snd (skip_action e s)) = files s"
  by (simp add: skip_action_def follow_and_restart_frame)

text \<open>
  Claim C6. For every number \<open>N\<close> of files, \<open>prev_action\<close> then \<open>skip_action\<close>, and
  \<open>skip_action\<close> then \<open>prev_action\<close>, with nothing run in between, leave
  \<open>playing_index\<close> at its original value modulo \<open>N\<close>: untouched when \<open>N = 0\<close>, and the
  original value itself when that was a position \<open>0 .. N-1\<close>. This holds whether or not
  a stream was active, and whatever the restarted track's load did.
\<close>

theorem previous_next_roundtrip:
  "playing_index (snd (skip_action e (snd (prev_action e s)))) =
     (if files s = [] then playing_index s else playing_index s mod int (length (files s)))
 \<and> playing_index (snd (prev_action e (snd (skip_action e s)))) =
     (if files s = [] then playing_index s else playing_index s mod int (length (files s)))
 \<and> (0 \<le> playing_index s \<and> playing_index s < int (length (files s)) \<longrightarrow>
       playing_index (snd (skip_action e (snd (prev_action e s)))) = playing_index s
     \<and> playing_index (snd (prev_action e (snd (skip_action e s)))) = playing_index s)"
  by (simp add: prev_action_index skip_action_index mod_simps)

theorem previous_next_roundtrip_witness:
  "playing_index (snd (skip_action \<lparr>wave_frames = (\<lambda>f. Some 100), device_ok = True\<rparr>
      (snd (prev_action \<lparr>wave_frames = (\<lambda>f. Some 100), device_ok = True\<rparr>
         (RadioApp_init [''a.wav'', ''b.wav'', ''c.wav''] None))))) = 0
 \<and> playing_index (snd (prev_action \<lparr>wave_frames = (\<lambda>f. Some 100), device_ok = True\<rparr>
      (snd (skip_action \<lparr>wave_frames = (\<lambda>f. Some 100), device_ok = True\<rparr>
         (RadioApp_init [''a.wav'', ''b.wav'', ''c.wav''] None))))) = 0"
proof -
  have inside: "0 \<le> playing_index (RadioApp_init [''a.wav'', ''b.wav'', ''c.wav''] None)
      \<and> playing_index (RadioApp_init [''a.wav'', ''b.wav'', ''c.wav''] None)
          < int (length (files (RadioApp_init [''a.wav'', ''b.wav'', ''c.wav''] None)))"
    by (simp add: RadioApp_init_def)
  have start: "playing_index (RadioApp_init [''a.wav'', ''b.wav'', ''c.wav''] None) = 0"
    by (simp add: RadioApp_init_def)
  show ?thesis
    using previous_next_roundtrip
      [of "\<lparr>wave_frames = (\<lambda>f. Some 100), device_ok = True\<rparr>"
          "RadioApp_init [''a.wav'', ''b.wav'', ''c.wav''] None"] inside start
    by simp
qed

section \<open>Switch controls\<close>

lemma clear_selection_length: "length (clear_selection ms keep cs) = length cs"
  by (induction ms keep cs rule: clear_selection.induct) auto

text \<open>The control that asks its group to clear the selection is not reset itself.\<close>

lemma clear_selection_keep: "clear_selection ms keep cs ! keep = cs ! keep"
  by (induction ms keep cs rule: clear_selection.induct) auto

lemma handle_control_group_length: "length (handle_control_group i cs) = length cs"
  by (simp add: handle_control_group_def clear_selection_length split: option.splits)

lemma handle_control_group_self: "handle_control_group i cs ! i = cs ! i"
  by (simp add: handle_control_group_def clear_selection_keep split: option.splits)

text \<open>
  Claim C7. For a switch control at address \<open>i\<close>, \<open>on_select\<close> invokes one callback:
  \<open>_on_select\<close> (the deactivation) when the control is switched, \<open>_on_switched_select\<close>
  (the activation) when it is not. \<open>is_switched\<close> flips exactly when that callback
  returns \<open>True\<close>; when it returns \<open>False\<close> (or raises) \<open>is_switched\<close> is what it was.
  The state the callbacks act on is the one the invoked callback left.
\<close>

theorem switch_on_select:
  assumes "i < length cs" and "cs ! i = SwitchControl st g f h sw"
  shows "is_switched (fst (snd (on_select i cs w)) ! i) =
           (if fst ((if sw then f else h) w) = Inr True then \<not> sw else sw)
       \<and> snd (snd (on_select i cs w)) = snd ((if sw then f else h) w)"
proof -
  let ?cs1 = "handle_control_group i cs"
  have self: "?cs1 ! i = SwitchControl st g f h sw"
    using assms(2) by (simp add: handle_control_group_self)
  have len: "i < length ?cs1"
    using assms(1) by (simp add: handle_control_group_length)
  obtain r w' where cb: "(if sw then f else h) w = (r, w')"
    by (cases "(if sw then f else h) w")
  show ?thesis
  proof (cases r)
    case (Inl err)
    then show ?thesis
      using assms(1) self len cb
      by (cases sw) (simp_all add: on_select_def Let_def)
  next
    case (Inr b)
    then show ?thesis
      using assms(1) self len cb
      by (cases sw; cases b) (simp_all add: on_select_def Let_def)
  qed
qed

text \<open>
  An unswitched control whose activation declines stays unswitched, and a switched one
  whose deactivation declines stays switched; the callbacks count their calls.
\<close>

theorem switch_on_select_witness:
  "is_switched (fst (snd (on_select 1
      [InstantControl NONE (Some [0, 1]) (\<lambda>n. (Inr (), n)),
       SwitchControl FOCUSED (Some [0, 1]) (\<lambda>n. (Inr True, n)) (\<lambda>n. (Inr False, n + 1)) False]
      (0::nat))) ! 1) = False
 \<and> snd (snd (on_select 1
      [InstantControl NONE (Some [0, 1]) (\<lambda>n. (Inr (), n)),
       SwitchControl FOCUSED (Some [0, 1]) (\<lambda>n. (Inr True, n)) (\<lambda>n. (Inr False, n + 1)) False]
      (0::nat))) = 1
 \<and> is_switched (fst (snd (on_select 0
      [SwitchControl FOCUSED None (\<lambda>n. (Inr False, n + 2)) (\<lambda>n. (Inr True, n)) True]
      (0::nat))) ! 0) = True
 \<and> is_switched (fst (snd (on_select 0
      [SwitchControl FOCUSED None (\<lambda>n. (Inr True, n + 2)) (\<lambda>n. (Inr True, n)) True]
      (0::nat))) ! 0) = False"
  using switch_on_select [of 1
      "[InstantControl NONE (Some [0, 1]) (\<lambda>n. (Inr (), n)),
        SwitchControl FOCUSED (Some [0, 1]) (\<lambda>n. (Inr True, n)) (\<lambda>n. (Inr False, n + 1)) False]"
      FOCUSED "Some [0, 1]" "\<lambda>n. (Inr True, n)" "\<lambda>n. (Inr False, n + 1)" False "0::nat"]
    switch_on_select [of 0
      "[SwitchControl FOCUSED None (\<lambda>n. (Inr False, n + 2)) (\<lambda>n. (Inr True, n)) True]"
      FOCUSED None "\<lambda>n. (Inr False, n + 2)" "\<lambda>n. (Inr True, n)" True "0::nat"]
    switch_on_select [of 0
      "[SwitchControl FOCUSED None (\<lambda>n. (Inr True, n + 2)) (\<lambda>n. (Inr True, n)) True]"
      FOCUSED None "\<lambda>n. (Inr True, n + 2)" "\<lambda>n. (Inr True, n)" True "0::nat"]
  by simp

section \<open>Progress\<close>

text \<open>
  Claim C8. With \<open>total_frames \<ge> 0\<close> (it is 0 or a file's frame count), \<open>progress\<close> is
  \<open>None\<close> exactly when \<open>total_frames = 0\<close>, and otherwise
  \<open>min 1 (played_frames / total_frames)\<close>; it is 1 whenever
  \<open>played_frames \<ge> total_frames > 0\<close> and never more than 1.
\<close>

theorem progress_spec:
  assumes "0 \<le> total_frames p"
  shows "(progress p = None \<longleftrightarrow> total_frames p = 0)
       \<and> (total_frames p \<noteq> 0 \<longrightarrow>
            progress p = Some (min 1 (real_of_int (played_frames p) / real_of_int (total_frames p))))
       \<and> (0 < total_frames p \<and> total_frames p \<le> played_frames p \<longrightarrow> progress p = Some 1)
       \<and> (\<forall>x. progress p = Some x \<longrightarrow> x \<le> 1)"
  using assms by (auto simp: progress_def min_def)

theorem progress_spec_witness:
  "progress (AudioPlayer_init\<lparr>total_frames := 100, played_frames := 40\<rparr>) = Some (2 / 5)
 \<and> progress (AudioPlayer_init\<lparr>total_frames := 100, played_frames := 1024\<rparr>) = Some 1
 \<and> progress AudioPlayer_init = None"
  using progress_spec [of "AudioPlayer_init\<lparr>total_frames := 100, played_frames := 40\<rparr>"]
    progress_spec [of "AudioPlayer_init\<lparr>total_frames := 100, played_frames := 1024\<rparr>"]
    progress_spec [of AudioPlayer_init]
  by (simp add: AudioPlayer_init_def)

section \<open>A failing load inside play\<close>

lemma playing_path_update_player: "playing_path (s\<lparr>player := p\<rparr>) = playing_path s"
  by (simp add: playing_path_def split: sum.splits)

text \<open>
  Claim C9. \<open>play_action\<close> with a selected track other than the one at the playing
  position, a stream loaded, and a file for the selected track that \<open>wave.open\<close> cannot
  open: the exception leaves \<open>play_action\<close>, and by then \<open>playing_index\<close> is the selected
  track's slot \<open>j\<close> and the old stream is stopped (no stream, counters zeroed, not
  continuing). Nothing is rolled back.
\<close>

theorem play_not_atomic:
  assumes "playlist s \<noteq> []"
      and "py_getitem (playlist s) (playing_index s) = Inr t"
      and "selected_index s \<noteq> t"
      and "py_index (playlist s) (selected_index s) = Inr j"
      and "stream (player s) = Some st"
      and "playing_path (s\<lparr>playing_index := j\<rparr>) = Inr path"
      and "wave_frames e path = None"
  shows "fst (play_action e s) = Inl OpenError
       \<and> playing_index (snd (play_action e s)) = j
       \<and> stream (player (snd (play_action e s))) = None
       \<and> total_frames (player (snd (play_action e s))) = 0
       \<and> played_frames (player (snd (play_action e s))) = 0
       \<and> \<not> is_continuing (player (snd (play_action e s)))"
proof -
  let ?s1 = "s\<lparr>playing_index := j\<rparr>"
  let ?s2 = "?s1\<lparr>player := snd (stop_stream (player ?s1))\<rparr>"
  have reloc: "play_relocate s = (Inr (), ?s2)"
    using assms(2-5) by (simp add: play_relocate_def has_stream_def Let_def)
  have nostream: "\<not> has_stream (player ?s2)"
    using assms(5) by (simp add: has_stream_def stop_stream_def)
  have path: "playing_path ?s2 = Inr path"
    using assms(6) by (simp add: playing_path_update_player)
  have load: "play_load e ?s2 = (Inl OpenError, ?s2)"
    using nostream path assms(7) by (simp add: play_load_def load_file_def)
  have "play_action e s = (Inl OpenError, ?s2)"
    using assms(1) reloc load by (simp add: play_action_def)
  then show ?thesis
    using assms(5) by (simp add: stop_stream_def)
qed

text \<open>
  Two files of which only the first opens; the first is playing (40 frames of 100 played,
  position 0), the second is selected.
\<close>

theorem play_not_atomic_witness:
  "fst (play_action
      \<lparr>wave_frames = (\<lambda>f. if f = ''media/a.wav'' then Some 100 else None), device_ok = True\<rparr>
      ((RadioApp_init [''a.wav'', ''b.wav''] None)
         \<lparr>selected_index := 1,
          player := \<lparr>total_frames = 100, played_frames = 40,
                     wave_read = Some \<lparr>nframes = 100, frames_read = 40\<rparr>,
                     stream = Some \<lparr>active = True\<rparr>, is_continuing = True,
                     output_device_index = None\<rparr>\<rparr>)) = Inl OpenError
 \<and> playing_index (snd (play_action
      \<lparr>wave_frames = (\<lambda>f. if f = ''media/a.wav'' then Some 100 else None), device_ok = True\<rparr>
      ((RadioApp_init [''a.wav'', ''b.wav''] None)
         \<lparr>selected_index := 1,
          player := \<lparr>total_frames = 100, played_frames = 40,
                     wave_read = Some \<lparr>nframes = 100, frames_read = 40\<rparr>,
                     stream = Some \<lparr>active = True\<rparr>, is_continuing = True,
                     output_device_index = None\<rparr>\<rparr>))) = 1
 \<and> stream (player (snd (play_action
      \<lparr>wave_frames = (\<lambda>f. if f = ''media/a.wav'' then Some 100 else None), device_ok = True\<rparr>
      ((RadioApp_init [''a.wav'', ''b.wav''] None)
         \<lparr>selected_index := 1,
          player := \<lparr>total_frames = 100, played_frames = 40,
                     wave_read = Some \<lparr>nframes = 100, frames_read = 40\<rparr>,
                     stream = Some \<lparr>active = True\<rparr>, is_continuing = True,
                     output_device_index = None\<rparr>\<rparr>)))) = None"
  using play_not_atomic
    [where s = "(RadioApp_init [''a.wav'', ''b.wav''] None)
         \<lparr>selected_index := 1,
          player := \<lparr>total_frames = 100, played_frames = 40,
                     wave_read = Some \<lparr>nframes = 100, frames_read = 40\<rparr>,
                     stream = Some \<lparr>active = True\<rparr>, is_continuing = True,
                     output_device_index = None\<rparr>\<rparr>"
       and e = "\<lparr>wave_frames = (\<lambda>f. if f = ''media/a.wav'' then Some 100 else None),
                device_ok = True\<rparr>"
       and t = 0 and j = 1 and st = "\<lparr>active = True\<rparr>" and path = "''media/b.wav''"]
  by (simp add: RadioApp_init_def playing_path_def py_getitem_def py_index_def path_join_def)

section \<open>Navigating an empty track list\<close>

text \<open>
  Claim C10. With no files, and \<open>selected_index\<close> at 0 (or anywhere in \<open>-2 .. 1\<close>),
  \<open>on_key_down\<close> sets \<open>selected_index\<close> to \<open>-1\<close>, which is no index \<open>0 .. N-1\<close>, and
  \<open>on_key_up\<close> gives 0.
\<close>

theorem empty_list_navigation:
  assumes "files s = []" and "- 2 \<le> selected_index s" and "selected_index s \<le> 1"
  shows "selected_index (on_key_down s) = - 1
       \<and> \<not> (0 \<le> selected_index (on_key_down s))
       \<and> selected_index (on_key_up s) = 0"
  using assms by (simp add: on_key_down_def on_key_up_def)

theorem empty_list_navigation_witness:
  "selected_index (on_key_down (RadioApp_init [] None)) = - 1
 \<and> selected_index (on_key_up (RadioApp_init [] None)) = 0
 \<and> selected_index (RadioApp_init [] None) = 0"
proof -
  have nofiles: "files (RadioApp_init [] None) = []"
    by (simp add: RadioApp_init_def)
  have at0: "selected_index (RadioApp_init [] None) = 0"
    by (simp add: RadioApp_init_def)
  show ?thesis
    using empty_list_navigation [OF nofiles] at0 by simp
qed

end
